theory Spec2Isabelle
  imports
    Main
    "HOL-Library.Char_ord"
    "HOL-Library.List_Lexorder"
    "HOL-Library.Multiset"
    "HOL-Library.Product_Lexorder"
begin

section \<open>JavaScript values\<close>

text \<open>
  The records handled by the pipeline are plain JavaScript objects obtained from
  \<^verbatim>\<open>JSON.parse\<close> or built by the TEI adapter. A value is a JSON value or
  \<^verbatim>\<open>undefined\<close>; an object is the list of its own enumerable properties in
  insertion order (property names are assumed not to be array indices, which JavaScript
  would enumerate first). Numbers are modelled as integers: the only numbers the modelled
  functions read are year components. Strings are sequences of ASCII code units.
\<close>

datatype json =
    JNull
  | JUndef
  | JBool bool
  | JNum int
  | JStr string
  | JArr "json list"
  | JObj "(string \<times> json) list"

type_synonym obj = "(string \<times> json) list"

text \<open>\<^verbatim>\<open>o[k]\<close>: a missing property reads as \<^verbatim>\<open>undefined\<close>.\<close>

definition getProp :: "obj \<Rightarrow> string \<Rightarrow> json" where
  "getProp ob k = (case map_of ob k of None \<Rightarrow> JUndef | Some v \<Rightarrow> v)"

text \<open>\<^verbatim>\<open>o[k] = v\<close>: an existing property keeps its position, a new one is appended.\<close>

fun setProp :: "(string \<times> 'v) list \<Rightarrow> string \<Rightarrow> 'v \<Rightarrow> (string \<times> 'v) list" where
  "setProp [] k v = [(k, v)]"
| "setProp ((k', v') # ps) k v = (if k' = k then (k, v) # ps else (k', v') # setProp ps k v)"

text \<open>
  Reading a property whose declared TypeScript type is \<^verbatim>\<open>string | undefined\<close> in a
  boolean context (\<^verbatim>\<open>if (item.DOI)\<close>, \<^verbatim>\<open>item.title || ''\<close>): the value counts
  when it is a non-empty string. The accessors read every field at its declared type.
\<close>

definition truthyStr :: "obj \<Rightarrow> string \<Rightarrow> string option" where
  "truthyStr ob k = (case getProp ob k of JStr s \<Rightarrow> (if s = [] then None else Some s) | _ \<Rightarrow> None)"

section \<open>String primitives\<close>

definition lowers :: string where "lowers = ''abcdefghijklmnopqrstuvwxyz''"
definition uppers :: string where "uppers = ''ABCDEFGHIJKLMNOPQRSTUVWXYZ''"
definition digits :: string where "digits = ''0123456789''"

definition toLowerChar :: "char \<Rightarrow> char" where
  "toLowerChar c = (case map_of (zip uppers lowers) c of Some l \<Rightarrow> l | None \<Rightarrow> c)"

definition toUpperChar :: "char \<Rightarrow> char" where
  "toUpperChar c = (case map_of (zip lowers uppers) c of Some u \<Rightarrow> u | None \<Rightarrow> c)"

definition toLowerCase :: "string \<Rightarrow> string" where
  "toLowerCase s = map toLowerChar s"

definition isLower :: "char \<Rightarrow> bool" where "isLower c = (c \<in> set lowers)"
definition isDigit :: "char \<Rightarrow> bool" where "isDigit c = (c \<in> set digits)"

text \<open>The ASCII members of the class \<^verbatim>\<open>\s\<close>: tab, LF, VT, FF, CR and space.\<close>

definition isSpace :: "char \<Rightarrow> bool" where
  "isSpace c = (c \<in> set [CHR 0x09, CHR 0x0A, CHR 0x0B, CHR 0x0C, CHR 0x0D, CHR '' ''])"

definition trim :: "string \<Rightarrow> string" where
  "trim s = rev (dropWhile isSpace (rev (dropWhile isSpace s)))"

text \<open>\<^verbatim>\<open>s.replace(/[^a-z]/g, '')\<close> and \<^verbatim>\<open>s.replace(/[^a-z0-9]/g, '')\<close>.\<close>

definition lettersOnly :: "string \<Rightarrow> string" where
  "lettersOnly s = filter isLower s"

definition alnumOnly :: "string \<Rightarrow> string" where
  "alnumOnly s = filter (\<lambda>c. isLower c \<or> isDigit c) s"

text \<open>\<^verbatim>\<open>s.charAt(0).toUpperCase() + s.slice(1)\<close>.\<close>

fun capitalize :: "string \<Rightarrow> string" where
  "capitalize [] = []"
| "capitalize (c # cs) = toUpperChar c # cs"

text \<open>\<^verbatim>\<open>s.replace(/^p/, '')\<close> for a literal prefix \<open>p\<close>.\<close>

definition stripPrefix :: "string \<Rightarrow> string \<Rightarrow> string" where
  "stripPrefix p s = (if take (length p) s = p then drop (length p) s else s)"

text \<open>
  \<^verbatim>\<open>s.split(/\s+/)\<close>: the pieces between maximal runs of white space. A leading or
  trailing run yields an empty first or last piece, and the empty string yields one empty
  piece.
\<close>

function splitWs_from :: "string \<Rightarrow> string \<Rightarrow> string list" where
  "splitWs_from cur [] = [rev cur]"
| "splitWs_from cur (c # cs) =
     (if isSpace c then rev cur # splitWs_from [] (dropWhile isSpace cs)
      else splitWs_from (c # cur) cs)"
  by pat_completeness auto
termination
  by (relation "measure (\<lambda>(cur, s). length s)")
     (auto simp: length_dropWhile_le less_Suc_eq_le)

definition splitWs :: "string \<Rightarrow> string list" where
  "splitWs s = splitWs_from [] s"

text \<open>\<^verbatim>\<open>s.match(/\d{4}/)\<close>: the leftmost run of four decimal digits.\<close>

fun matchFourDigits :: "string \<Rightarrow> string option" where
  "matchFourDigits [] = None"
| "matchFourDigits (c # cs) =
     (if 4 \<le> length (c # cs) \<and> list_all isDigit (take 4 (c # cs)) then Some (take 4 (c # cs))
      else matchFourDigits cs)"

text \<open>\<^verbatim>\<open>String(n)\<close> for an integer \<open>n\<close>: its decimal numeral.\<close>

definition digitChar :: "nat \<Rightarrow> char" where
  "digitChar d = digits ! d"

function showNat :: "nat \<Rightarrow> string" where
  "showNat n = (if n < 10 then [digitChar n] else showNat (n div 10) @ [digitChar (n mod 10)])"
  by pat_completeness auto
termination
  by (relation "measure id") auto

declare showNat.simps [simp del]

definition showInt :: "int \<Rightarrow> string" where
  "showInt i = (if i < 0 then CHR ''-'' # showNat (nat (- i)) else showNat (nat i))"

text \<open>
  \<^verbatim>\<open>a.localeCompare(b)\<close>. Every string the sort compares consists of decimal digits and
  lower-case ASCII letters (or is a year taken from the record), where the collation order
  is the order of the code units; the comparison is modelled as that lexicographic order.
\<close>

fun localeCompare :: "string \<Rightarrow> string \<Rightarrow> int" where
  "localeCompare [] [] = 0"
| "localeCompare [] (y # ys) = - 1"
| "localeCompare (x # xs) [] = 1"
| "localeCompare (x # xs) (y # ys) =
     (if x = y then localeCompare xs ys else if x < y then - 1 else 1)"

section \<open>Normalization engine (core/normalize.ts)\<close>

subsection \<open>Key components\<close>

definition stripDoiUrl :: "string \<Rightarrow> string" where
  "stripDoiUrl s =
     (if take 19 s = ''https://dx.doi.org/'' then drop 19 s
      else if take 16 s = ''https://doi.org/'' then drop 16 s
      else if take 18 s = ''http://dx.doi.org/'' then drop 18 s
      else if take 15 s = ''http://doi.org/'' then drop 15 s
      else s)"

definition normalizeDoi :: "string \<Rightarrow> string" where
  "normalizeDoi doi = trim (stripPrefix ''doi:'' (stripDoiUrl (toLowerCase doi)))"

definition normalizeUrl :: "string \<Rightarrow> string" where
  "normalizeUrl url = trim (rev (dropWhile (\<lambda>c. c = CHR ''/'') (rev (toLowerCase url))))"

definition normalizeTitle :: "string \<Rightarrow> string" where
  "normalizeTitle title = take 100 (alnumOnly (toLowerCase title))"

text \<open>\<^verbatim>\<open>item.title || ''\<close>.\<close>

definition titleOrEmpty :: "obj \<Rightarrow> string" where
  "titleOrEmpty item = (case truthyStr item ''title'' of Some t \<Rightarrow> t | None \<Rightarrow> [])"

text \<open>\<^verbatim>\<open>item.issued?.['date-parts']?.[0]?.[0]\<close>.\<close>

definition firstDatePart :: "obj \<Rightarrow> json" where
  "firstDatePart item =
     (case getProp item ''issued'' of
        JObj d \<Rightarrow>
          (case getProp d ''date-parts'' of
             JArr (JArr (p # _) # _) \<Rightarrow> p
           | _ \<Rightarrow> JUndef)
      | _ \<Rightarrow> JUndef)"

text \<open>
  A date part is declared \<^verbatim>\<open>number | string\<close>: it counts when it is a non-zero number
  or a non-empty string, and \<^verbatim>\<open>String\<close> renders it.
\<close>

definition truthyPart :: "json \<Rightarrow> string option" where
  "truthyPart p =
     (case p of
        JNum n \<Rightarrow> (if n = 0 then None else Some (showInt n))
      | JStr s \<Rightarrow> (if s = [] then None else Some s)
      | _ \<Rightarrow> None)"

definition issuedLiteral :: "obj \<Rightarrow> string option" where
  "issuedLiteral item =
     (case getProp item ''issued'' of JObj d \<Rightarrow> truthyStr d ''literal'' | _ \<Rightarrow> None)"

definition extractYear :: "obj \<Rightarrow> string" where
  "extractYear item =
     (case truthyPart (firstDatePart item) of
        Some y \<Rightarrow> y
      | None \<Rightarrow>
          (case issuedLiteral item of
             Some lit \<Rightarrow> (case matchFourDigits lit of Some m \<Rightarrow> m | None \<Rightarrow> ''unknown'')
           | None \<Rightarrow> ''unknown''))"

text \<open>\<^verbatim>\<open>literal.split(/\s+/)[0]\<close>.\<close>

definition firstWord :: "string \<Rightarrow> string" where
  "firstWord s = (case splitWs s of [] \<Rightarrow> [] | w # _ \<Rightarrow> w)"

definition getFirstAuthorFamily :: "obj \<Rightarrow> string" where
  "getFirstAuthorFamily item =
     (case getProp item ''author'' of
        JArr (JObj first # _) \<Rightarrow>
          (case truthyStr first ''family'' of
             Some fam \<Rightarrow> lettersOnly (toLowerCase fam)
           | None \<Rightarrow>
               (case truthyStr first ''literal'' of
                  Some lit \<Rightarrow> lettersOnly (toLowerCase (firstWord lit))
                | None \<Rightarrow> ''unknown''))
      | _ \<Rightarrow> ''unknown'')"

subsection \<open>Deduplication key\<close>

definition generateDedupeKey :: "obj \<Rightarrow> string" where
  "generateDedupeKey item =
     (case truthyStr item ''DOI'' of
        Some doi \<Rightarrow> ''doi:'' @ normalizeDoi doi
      | None \<Rightarrow>
          (case truthyStr item ''URL'' of
             Some url \<Rightarrow> ''url:'' @ normalizeUrl url
           | None \<Rightarrow>
               ''key:'' @ getFirstAuthorFamily item @ ''|'' @ extractYear item @ ''|''
                 @ normalizeTitle (titleOrEmpty item)))"

subsection \<open>Citation key\<close>

definition skipWords :: "string list" where
  "skipWords = [''a'', ''an'', ''the'', ''on'', ''in'', ''of'', ''for'', ''to'']"

fun firstSignificant :: "string list \<Rightarrow> string" where
  "firstSignificant [] = ''Untitled''"
| "firstSignificant (w # ws) =
     (let cleaned = lettersOnly w
      in if cleaned \<noteq> [] \<and> cleaned \<notin> set skipWords then capitalize cleaned
         else firstSignificant ws)"

definition getFirstTitleWord :: "string \<Rightarrow> string" where
  "getFirstTitleWord title = firstSignificant (splitWs (toLowerCase title))"

definition generateCiteKey :: "obj \<Rightarrow> string" where
  "generateCiteKey item =
     (let author = (if getFirstAuthorFamily item = [] then ''unknown''
                    else getFirstAuthorFamily item);
          year = extractYear item;
          titleWord = getFirstTitleWord (titleOrEmpty item);
          authorKey = capitalize author
      in authorKey @ year @ titleWord)"

subsection \<open>Merging duplicates\<close>

text \<open>\<^verbatim>\<open>v === undefined || v === null || v === ''\<close>.\<close>

definition isEmptyVal :: "json \<Rightarrow> bool" where
  "isEmptyVal v = (v = JUndef \<or> v = JNull \<or> v = JStr [])"

text \<open>One iteration of the loop over \<^verbatim>\<open>Object.entries(source)\<close>.\<close>

definition mergeStep :: "obj \<Rightarrow> string \<times> json \<Rightarrow> obj" where
  "mergeStep target kv =
     (if isEmptyVal (snd kv) then target
      else if isEmptyVal (getProp target (fst kv)) then setProp target (fst kv) (snd kv)
      else target)"

definition mergeItems :: "obj \<Rightarrow> obj \<Rightarrow> obj" where
  "mergeItems target source = foldl mergeStep target source"

datatype RefSource = DocxCitation | DocxBibliography | PdfGrobid

record ExtractedRef =
  item :: obj
  source :: RefSource
  sourceFile :: string
  rawData :: json

text \<open>
  The \<^verbatim>\<open>Map\<close> \<open>seen\<close> keeps its keys in insertion order; the loop state is that
  map together with the duplicate counter.
\<close>

definition dedupStep :: "(string \<times> obj) list \<times> nat \<Rightarrow> ExtractedRef \<Rightarrow> (string \<times> obj) list \<times> nat" where
  "dedupStep st r =
     (let key = generateDedupeKey (item r)
      in case map_of (fst st) key of
           Some existing \<Rightarrow> (setProp (fst st) key (mergeItems existing (item r)), Suc (snd st))
         | None \<Rightarrow> (fst st @ [(key, item r)], snd st))"

definition deduplicateItems :: "ExtractedRef list \<Rightarrow> obj list \<times> nat" where
  "deduplicateItems refs = (let st = foldl dedupStep ([], 0) refs in (map snd (fst st), snd st))"

subsection \<open>Trimming\<close>

definition trimValue :: "json \<Rightarrow> json" where
  "trimValue v = (case v of JStr s \<Rightarrow> JStr (trim s) | _ \<Rightarrow> v)"

text \<open>
  \<^verbatim>\<open>Object.entries(v)\<close> for a value with \<^verbatim>\<open>typeof v === 'object'\<close>: the properties
  of an object, the index-keyed elements of an array.
\<close>

definition entriesOf :: "json \<Rightarrow> obj" where
  "entriesOf v =
     (case v of
        JObj ps \<Rightarrow> ps
      | JArr xs \<Rightarrow> zip (map showNat [0..<length xs]) xs
      | _ \<Rightarrow> [])"

definition trimName :: "json \<Rightarrow> json" where
  "trimName name = JObj (map (\<lambda>kv. (fst kv, trimValue (snd kv))) (entriesOf name))"

text \<open>The callback of \<^verbatim>\<open>value.map\<close>: \<^verbatim>\<open>typeof v === 'object' && v !== null\<close>.\<close>

definition trimElem :: "json \<Rightarrow> json" where
  "trimElem v = (case v of JObj ps \<Rightarrow> trimName v | JArr xs \<Rightarrow> trimName v | _ \<Rightarrow> v)"

definition trimField :: "json \<Rightarrow> json" where
  "trimField v =
     (case v of
        JStr s \<Rightarrow> JStr (trim s)
      | JArr xs \<Rightarrow> JArr (map trimElem xs)
      | _ \<Rightarrow> v)"

definition trimItem :: "obj \<Rightarrow> obj" where
  "trimItem it = map (\<lambda>kv. (fst kv, trimField (snd kv))) it"

subsection \<open>Sorting\<close>

definition compareItems :: "obj \<Rightarrow> obj \<Rightarrow> int" where
  "compareItems a b =
     (if getFirstAuthorFamily a \<noteq> getFirstAuthorFamily b
        then localeCompare (getFirstAuthorFamily a) (getFirstAuthorFamily b)
      else if extractYear a \<noteq> extractYear b
        then localeCompare (extractYear a) (extractYear b)
      else localeCompare (normalizeTitle (titleOrEmpty a)) (normalizeTitle (titleOrEmpty b)))"

text \<open>
  \<^verbatim>\<open>Array.prototype.sort\<close> with a comparator is a stable sort; it is modelled as the
  stable insertion sort, which places an element before the first one it does not exceed.
\<close>

fun insertBy :: "('a \<Rightarrow> 'a \<Rightarrow> int) \<Rightarrow> 'a \<Rightarrow> 'a list \<Rightarrow> 'a list" where
  "insertBy cmp x [] = [x]"
| "insertBy cmp x (y # ys) = (if cmp x y \<le> 0 then x # y # ys else y # insertBy cmp x ys)"

definition sortBy :: "('a \<Rightarrow> 'a \<Rightarrow> int) \<Rightarrow> 'a list \<Rightarrow> 'a list" where
  "sortBy cmp xs = foldr (insertBy cmp) xs []"

definition sortItems :: "obj list \<Rightarrow> obj list" where
  "sortItems items = sortBy compareItems items"

subsection \<open>The normalization pass\<close>

definition normalizeRefs :: "ExtractedRef list \<Rightarrow> obj list \<times> nat" where
  "normalizeRefs refs =
     (let du = deduplicateItems refs;
          trimmed = map trimItem (fst du);
          sorted = sortItems trimmed
      in (sorted, snd du))"

section \<open>Format converter (convert/citationJs.ts)\<close>

text \<open>\<^verbatim>\<open>a ?? b\<close>.\<close>

definition nullishOr :: "json \<Rightarrow> json \<Rightarrow> json" where
  "nullishOr a b = (if a = JNull \<or> a = JUndef then b else a)"

text \<open>
  The callback of \<^verbatim>\<open>items.map\<close> in \<^verbatim>\<open>convertToFormat\<close>:
  \<^verbatim>\<open>{...item, id: item.id ?? generateCiteKey(item) ?? `ref-${index + 1}`}\<close>.
\<close>

definition assignId :: "nat \<Rightarrow> obj \<Rightarrow> obj" where
  "assignId index it =
     setProp it ''id''
       (nullishOr (getProp it ''id'')
          (nullishOr (JStr (generateCiteKey it)) (JStr (''ref-'' @ showNat (index + 1)))))"


section \<open>Specification vocabulary\<close>

text \<open>
  A lower-cased DOI carries a prefix when it starts with one of the resolver URLs matched
  by \<^verbatim>\<open>/^https?:\/\/(dx\.)?doi\.org\//\<close> or with \<^verbatim>\<open>doi:\<close>.
\<close>

definition hasDoiPrefix :: "string \<Rightarrow> bool" where
  "hasDoiPrefix s =
     (take 19 s = ''https://dx.doi.org/'' \<or> take 16 s = ''https://doi.org/''
      \<or> take 18 s = ''http://dx.doi.org/'' \<or> take 15 s = ''http://doi.org/''
      \<or> take 4 s = ''doi:'')"

text \<open>
  \<open>doiVariant d d'\<close>: the DOI \<open>d'\<close> differs from \<open>d\<close> only in letter case, or is
  \<open>d\<close> with one \<^verbatim>\<open>https://doi.org/\<close> or \<^verbatim>\<open>doi:\<close> prefix added (in any letter
  case), where \<open>d\<close> itself carries no prefix.
\<close>

definition doiVariant :: "string \<Rightarrow> string \<Rightarrow> bool" where
  "doiVariant d d' =
     (toLowerCase d' = toLowerCase d
      \<or> (hasDoiPrefix (toLowerCase d) = False
          \<and> (toLowerCase d' = ''https://doi.org/'' @ toLowerCase d
              \<or> toLowerCase d' = ''doi:'' @ toLowerCase d)))"





section \<open>Citation payload extractor (extractors/docx.ts)\<close>

text \<open>The double quote and the backslash.\<close>

definition quoteChar :: char where "quoteChar = CHR 0x22"
definition backslash :: char where "backslash = CHR 0x5C"

fun scanBrace :: "string \<Rightarrow> nat \<Rightarrow> int \<Rightarrow> bool \<Rightarrow> bool \<Rightarrow> nat option" where
  "scanBrace [] i depth inString escape = None"
| "scanBrace (c # cs) i depth inString escape =
     (if escape then scanBrace cs (i + 1) depth inString False
      else if c = backslash \<and> inString then scanBrace cs (i + 1) depth inString True
      else if c = quoteChar then scanBrace cs (i + 1) depth (\<not> inString) escape
      else if inString then scanBrace cs (i + 1) depth inString escape
      else if c = CHR ''{'' then scanBrace cs (i + 1) (depth + 1) inString escape
      else if c = CHR ''}'' then
        (if depth - 1 = 0 then Some i else scanBrace cs (i + 1) (depth - 1) inString escape)
      else scanBrace cs (i + 1) depth inString escape)"

definition findBalancedBrace :: "string \<Rightarrow> nat \<Rightarrow> nat option" where
  "findBalancedBrace tx start = scanBrace (drop start tx) start 0 False False"

fun indexOfChar :: "char \<Rightarrow> string \<Rightarrow> nat \<Rightarrow> nat option" where
  "indexOfChar c [] i = None"
| "indexOfChar c (x # xs) i = (if x = c then Some i else indexOfChar c xs (i + 1))"

definition indexOf :: "string \<Rightarrow> char \<Rightarrow> nat \<Rightarrow> nat option" where
  "indexOf tx c from = indexOfChar c (drop from tx) from"

definition slice :: "string \<Rightarrow> nat \<Rightarrow> nat \<Rightarrow> string" where
  "slice tx a b = take (b - a) (drop a tx)"

definition citationMarkers :: "string list" where
  "citationMarkers = [''ADDIN ZOTERO_ITEM '', ''ADDIN ZOTERO_BIBL '', ''ADDIN CSL_CITATION '']"

definition matchMarker :: "string \<Rightarrow> nat option" where
  "matchMarker s = map_option length (find (\<lambda>m. take (length m) s = m) citationMarkers)"

fun findMarker :: "string \<Rightarrow> nat \<Rightarrow> (nat \<times> nat) option" where
  "findMarker [] i = None"
| "findMarker (c # cs) i =
     (case matchMarker (c # cs) of Some n \<Rightarrow> Some (i, n) | None \<Rightarrow> findMarker cs (i + 1))"

definition blockAfter :: "string \<Rightarrow> nat \<Rightarrow> string option" where
  "blockAfter tx startSearch =
     (case indexOf tx (CHR ''{'') startSearch of
        None \<Rightarrow> None
      | Some jsonStart \<Rightarrow>
          (case findBalancedBrace tx jsonStart of
             None \<Rightarrow> None
           | Some jsonEnd \<Rightarrow> Some (slice tx jsonStart (jsonEnd + 1))))"

text \<open>
  The loop \<^verbatim>\<open>while ((match = citationPattern.exec(text)) !== null)\<close>: the global
  regular expression resumes at the end of the previous match. Its termination rests on
  every match being non-empty and inside the text.
\<close>

lemma take_eq_length: "take (length m) s = m \<Longrightarrow> length m \<le> length s"
  by (metis length_take min.cobounded1)

lemma matchMarker_pos:
  assumes "matchMarker s = Some n"
  shows "0 < n \<and> n \<le> length s"
proof -
  from assms obtain m where m: "find (\<lambda>m. take (length m) s = m) citationMarkers = Some m"
    and n: "n = length m"
    by (auto simp: matchMarker_def)
  from m have "m \<in> set citationMarkers" and t: "take (length m) s = m"
    by (auto simp: find_Some_iff)
  then have "m \<noteq> []"
    by (auto simp: citationMarkers_def)
  with take_eq_length [OF t] n show ?thesis
    by simp
qed

lemma findMarker_bounds:
  "findMarker s i = Some (idx, n) \<Longrightarrow> i \<le> idx \<and> 0 < n \<and> idx + n \<le> i + length s"
proof (induction s arbitrary: i)
  case Nil
  then show ?case by simp
next
  case (Cons c cs)
  show ?case
  proof (cases "matchMarker (c # cs)")
    case None
    with Cons.prems have "findMarker cs (i + 1) = Some (idx, n)" by simp
    from Cons.IH [OF this] show ?thesis by simp
  next
    case (Some m)
    with Cons.prems have "idx = i" "n = m" by simp_all
    with matchMarker_pos [OF Some] show ?thesis by simp
  qed
qed

function extractLoop :: "string \<Rightarrow> nat \<Rightarrow> string list" where
  "extractLoop tx lastIndex =
     (case findMarker (drop lastIndex tx) lastIndex of
        None \<Rightarrow> []
      | Some (idx, n) \<Rightarrow>
          (case blockAfter tx (idx + n) of
             None \<Rightarrow> extractLoop tx (idx + n)
           | Some b \<Rightarrow> b # extractLoop tx (idx + n)))"
  by pat_completeness auto
termination
  by (relation "measure (\<lambda>(tx, lastIndex). length tx - lastIndex)")
     (auto dest: findMarker_bounds)

declare extractLoop.simps [simp del]

definition extractJsonBlocks :: "string \<Rightarrow> string list" where
  "extractJsonBlocks tx = extractLoop tx 0"




subsection \<open>Rendering\<close>









































section \<open>Properties\<close>

subsection \<open>Citation keys are never empty\<close>

lemma capitalize_Nil_iff: "capitalize s = [] \<longleftrightarrow> s = []"
  by (cases s) simp_all

lemma generateCiteKey_nonempty: "generateCiteKey it \<noteq> []"
  by (simp add: generateCiteKey_def Let_def capitalize_Nil_iff)

text \<open>
  Claim C10. For every record, including one with no author, no date and no title,
  \<open>generateCiteKey\<close> returns a non-empty string; the key of the empty record is made of
  the three default literals. Consequently the positional branch of the identifier
  assignment in \<open>convertToFormat\<close> is never taken: the assigned identifier is the
  record's own one when that is neither null nor undefined, and the citation key otherwise,
  whatever the index.
\<close>

theorem citeKey_nonempty_positional_branch_unreachable:
  "generateCiteKey it \<noteq> []
   \<and> generateCiteKey [] = ''UnknownunknownUntitled''
   \<and> nullishOr (JStr (generateCiteKey it)) fallback = JStr (generateCiteKey it)
   \<and> assignId index it =
       setProp it ''id'' (nullishOr (getProp it ''id'') (JStr (generateCiteKey it)))"
proof -
  have "generateCiteKey [] = ''UnknownunknownUntitled''"
    by code_simp
  then show ?thesis
    by (simp add: generateCiteKey_nonempty assignId_def nullishOr_def)
qed

subsection \<open>Objects\<close>

lemma getProp_setProp: "getProp (setProp ob k v) k' = (if k' = k then v else getProp ob k')"
  by (induction ob) (auto simp: getProp_def)

subsection \<open>Deduplication key priority\<close>

lemma toLowerCase_Nil_iff: "toLowerCase s = [] \<longleftrightarrow> s = []"
  by (simp add: toLowerCase_def)

lemma stripDoiUrl_https: "stripDoiUrl (''https://doi.org/'' @ s) = s"
  by (simp add: stripDoiUrl_def)

lemma stripDoiUrl_doi: "stripDoiUrl (''doi:'' @ s) = ''doi:'' @ s"
  by (simp add: stripDoiUrl_def)

lemma stripPrefix_doi: "stripPrefix ''doi:'' (''doi:'' @ s) = s"
  by (simp add: stripPrefix_def)

lemma bare_strip:
  "\<not> hasDoiPrefix s \<Longrightarrow> stripDoiUrl s = s \<and> stripPrefix ''doi:'' s = s"
  by (simp add: hasDoiPrefix_def stripDoiUrl_def stripPrefix_def eval_nat_numeral)

lemma variant_cases:
  "doiVariant d d' \<Longrightarrow>
     toLowerCase d' = toLowerCase d
     \<or> (\<not> hasDoiPrefix (toLowerCase d) \<and> toLowerCase d' = ''https://doi.org/'' @ toLowerCase d)
     \<or> (\<not> hasDoiPrefix (toLowerCase d) \<and> toLowerCase d' = ''doi:'' @ toLowerCase d)"
  unfolding doiVariant_def by blast

lemma normalizeDoi_variant:
  assumes "doiVariant d d'"
  shows "normalizeDoi d' = normalizeDoi d"
  using variant_cases [OF assms]
proof (elim disjE conjE)
  assume "toLowerCase d' = toLowerCase d"
  then show ?thesis
    by (simp add: normalizeDoi_def)
next
  assume b: "\<not> hasDoiPrefix (toLowerCase d)"
    and e: "toLowerCase d' = ''https://doi.org/'' @ toLowerCase d"
  show ?thesis
    unfolding normalizeDoi_def e stripDoiUrl_https using bare_strip [OF b] by simp
next
  assume b: "\<not> hasDoiPrefix (toLowerCase d)"
    and e: "toLowerCase d' = ''doi:'' @ toLowerCase d"
  show ?thesis
    unfolding normalizeDoi_def e stripDoiUrl_doi stripPrefix_doi using bare_strip [OF b] by simp
qed

lemma variant_nonempty:
  assumes "doiVariant d d'" and "d \<noteq> []"
  shows "d' \<noteq> []"
proof
  assume "d' = []"
  then have "toLowerCase d' = []"
    by (simp add: toLowerCase_def)
  with variant_cases [OF assms(1)] have "toLowerCase d = []"
    by auto
  with assms(2) show False
    by (simp add: toLowerCase_Nil_iff)
qed

lemma dedupeKey_DOI:
  "getProp a ''DOI'' = JStr d \<Longrightarrow> d \<noteq> [] \<Longrightarrow> generateDedupeKey a = ''doi:'' @ normalizeDoi d"
  by (simp add: generateDedupeKey_def truthyStr_def)

text \<open>
  Claim C2 fails as stated: the resolver URL is stripped before the \<^verbatim>\<open>doi:\<close> prefix
  and each only once, so a DOI written \<^verbatim>\<open>doi:https://doi.org/...\<close> keeps its URL
  prefix. The two records below differ only in a \<^verbatim>\<open>doi:\<close> prefix and get
  different keys.
\<close>

theorem dedupeKey_stacked_prefix_counterexample:
  "generateDedupeKey
      [(''type'', JStr ''article-journal''), (''DOI'', JStr ''https://doi.org/10.1234/x'')]
     = ''doi:10.1234/x''
   \<and> generateDedupeKey
      [(''type'', JStr ''article-journal''),
       (''DOI'', JStr (''doi:'' @ ''https://doi.org/10.1234/x''))]
     = ''doi:https://doi.org/10.1234/x''"
  by code_simp

text \<open>
  Claim C2, amended. For every record with a non-empty DOI, \<open>generateDedupeKey\<close> returns
  the DOI-derived key: \<^verbatim>\<open>doi:\<close> followed by the DOI lower-cased, with a resolver URL
  and then a \<^verbatim>\<open>doi:\<close> prefix stripped, and trimmed. This holds whatever the URL field
  is. Any record that agrees with it on every field but the DOI, and whose DOI differs only
  in letter case or by one added \<^verbatim>\<open>https://doi.org/\<close> or \<^verbatim>\<open>doi:\<close> prefix in
  front of a DOI that carries no such prefix itself, has the same key.
\<close>

theorem dedupeKey_doi_priority:
  assumes "getProp a ''DOI'' = JStr d" and "d \<noteq> []"
  shows "generateDedupeKey a
           = ''doi:'' @ trim (stripPrefix ''doi:'' (stripDoiUrl (toLowerCase d)))
         \<and> (\<forall>u. generateDedupeKey (setProp a ''URL'' u) = generateDedupeKey a)
         \<and> (\<forall>b d'. getProp b ''DOI'' = JStr d' \<and> doiVariant d d'
                \<longrightarrow> generateDedupeKey b = generateDedupeKey a)"
proof -
  have key: "generateDedupeKey a = ''doi:'' @ normalizeDoi d"
    using assms by (rule dedupeKey_DOI)
  have url: "generateDedupeKey (setProp a ''URL'' u) = generateDedupeKey a" for u
  proof -
    have "getProp (setProp a ''URL'' u) ''DOI'' = JStr d"
      using assms(1) by (simp add: getProp_setProp)
    then show ?thesis
      using assms(2) key by (simp add: dedupeKey_DOI)
  qed
  have var: "generateDedupeKey b = generateDedupeKey a"
    if "getProp b ''DOI'' = JStr d'" and "doiVariant d d'" for b d'
  proof -
    from that(2) assms(2) have "d' \<noteq> []"
      by (rule variant_nonempty)
    with that(1) have "generateDedupeKey b = ''doi:'' @ normalizeDoi d'"
      by (rule dedupeKey_DOI)
    with that(2) key show ?thesis
      by (simp add: normalizeDoi_variant)
  qed
  from key url var show ?thesis
    by (simp add: normalizeDoi_def)
qed

theorem dedupeKey_doi_priority_witness:
  "generateDedupeKey
      [(''type'', JStr ''article-journal''), (''title'', JStr ''Test Article''),
       (''DOI'', JStr ''10.1234/Test.001''), (''URL'', JStr ''https://example.com/article'')]
     = ''doi:10.1234/test.001''
   \<and> generateDedupeKey
      [(''type'', JStr ''article-journal''),
       (''DOI'', JStr ''HTTPS://doi.org/10.1234/TEST.001'')]
     = generateDedupeKey
      [(''type'', JStr ''article-journal''), (''title'', JStr ''Test Article''),
       (''DOI'', JStr ''10.1234/Test.001''), (''URL'', JStr ''https://example.com/article'')]"
proof -
  let ?a = "[(''type'', JStr ''article-journal''), (''title'', JStr ''Test Article''),
       (''DOI'', JStr ''10.1234/Test.001''), (''URL'', JStr ''https://example.com/article'')]"
  let ?b = "[(''type'', JStr ''article-journal''),
       (''DOI'', JStr ''HTTPS://doi.org/10.1234/TEST.001'')]"
  have a: "getProp ?a ''DOI'' = JStr ''10.1234/Test.001''"
    by code_simp
  have ne: "''10.1234/Test.001'' \<noteq> []"
    by simp
  have b: "getProp ?b ''DOI'' = JStr ''HTTPS://doi.org/10.1234/TEST.001''"
    by code_simp
  have v: "doiVariant ''10.1234/Test.001'' ''HTTPS://doi.org/10.1234/TEST.001''"
    by code_simp
  have n: "trim (stripPrefix ''doi:'' (stripDoiUrl (toLowerCase ''10.1234/Test.001'')))
             = ''10.1234/test.001''"
    by code_simp
  note th = dedupeKey_doi_priority [OF a ne]
  have 1: "generateDedupeKey ?a = ''doi:10.1234/test.001''"
    using th [THEN conjunct1] by (simp only: n) simp
  have 2: "generateDedupeKey ?b = generateDedupeKey ?a"
    by (rule th [THEN conjunct2, THEN conjunct2, rule_format, OF conjI [OF b v]])
  from 1 2 show ?thesis
    by (rule conjI)
qed

subsection \<open>Merging is non-destructive\<close>

lemma mergeStep_cases:
  "getProp (mergeStep a kv) k = getProp a k
   \<or> (k = fst kv \<and> isEmptyVal (getProp a k) \<and> \<not> isEmptyVal (snd kv)
       \<and> getProp (mergeStep a kv) k = snd kv)"
  by (simp add: mergeStep_def getProp_setProp)

lemma mergeItems_frame:
  "(\<not> isEmptyVal (getProp a k) \<longrightarrow> getProp (mergeItems a b) k = getProp a k)
   \<and> (getProp (mergeItems a b) k \<noteq> getProp a k \<longrightarrow>
        isEmptyVal (getProp a k) \<and> \<not> isEmptyVal (getProp (mergeItems a b) k)
        \<and> (k, getProp (mergeItems a b) k) \<in> set b)"
proof (induction b arbitrary: a)
  case Nil
  show ?case by (simp add: mergeItems_def)
next
  case (Cons kv b)
  have unfold: "mergeItems a (kv # b) = mergeItems (mergeStep a kv) b"
    by (simp add: mergeItems_def)
  from mergeStep_cases [of a kv k] Cons.IH [of "mergeStep a kv"]
  show ?case
    unfolding unfold by (cases kv) auto
qed

lemma dedup_pair:
  "generateDedupeKey (item rB) = generateDedupeKey (item rA) \<Longrightarrow>
     deduplicateItems [rA, rB] = ([mergeItems (item rA) (item rB)], 1)"
  by (simp add: deduplicateItems_def dedupStep_def Let_def)

text \<open>
  Claim C3. When a duplicate \<open>rB\<close> follows the canonical record \<open>rA\<close> (same key),
  deduplication keeps one record, \<open>mergeItems\<close> of the two. In that merge every field of
  the canonical record whose value is neither absent (undefined), null nor the empty string
  is unchanged; a field whose value did change was absent, null or empty on the canonical
  record, and its new value is a non-empty value that the duplicate holds for that field.
\<close>

theorem merge_nondestructive:
  "(generateDedupeKey (item rB) = generateDedupeKey (item rA) \<longrightarrow>
      deduplicateItems [rA, rB] = ([mergeItems (item rA) (item rB)], 1))
   \<and> (\<not> isEmptyVal (getProp a k) \<longrightarrow> getProp (mergeItems a b) k = getProp a k)
   \<and> (getProp (mergeItems a b) k \<noteq> getProp a k \<longrightarrow>
        isEmptyVal (getProp a k) \<and> \<not> isEmptyVal (getProp (mergeItems a b) k)
        \<and> (k, getProp (mergeItems a b) k) \<in> set b)"
  using mergeItems_frame [of a k b] dedup_pair [of rB rA] by blast

theorem merge_nondestructive_witness:
  "getProp (mergeItems
      [(''type'', JStr ''article-journal''), (''title'', JStr ''Article''), (''page'', JStr [])]
      [(''title'', JStr ''Article (variant)''), (''volume'', JStr ''42''),
       (''page'', JStr ''1-10'')]) ''title'' = JStr ''Article''
   \<and> getProp (mergeItems
      [(''type'', JStr ''article-journal''), (''title'', JStr ''Article''), (''page'', JStr [])]
      [(''title'', JStr ''Article (variant)''), (''volume'', JStr ''42''),
       (''page'', JStr ''1-10'')]) ''page'' = JStr ''1-10''
   \<and> deduplicateItems
      [\<lparr>item = [(''title'', JStr ''Article''), (''DOI'', JStr ''10.1234/merge'')],
        source = DocxCitation, sourceFile = ''test.docx'', rawData = JNull\<rparr>,
       \<lparr>item = [(''DOI'', JStr ''10.1234/MERGE''), (''volume'', JStr ''42'')],
        source = DocxCitation, sourceFile = ''test.docx'', rawData = JNull\<rparr>]
     = ([[(''title'', JStr ''Article''), (''DOI'', JStr ''10.1234/merge''),
          (''volume'', JStr ''42'')]], 1)"
proof -
  let ?a = "[(''type'', JStr ''article-journal''), (''title'', JStr ''Article''),
             (''page'', JStr [])]"
  let ?b = "[(''title'', JStr ''Article (variant)''), (''volume'', JStr ''42''),
             (''page'', JStr ''1-10'')]"
  let ?rA = "\<lparr>item = [(''title'', JStr ''Article''), (''DOI'', JStr ''10.1234/merge'')],
        source = DocxCitation, sourceFile = ''test.docx'', rawData = JNull\<rparr>"
  let ?rB = "\<lparr>item = [(''DOI'', JStr ''10.1234/MERGE''), (''volume'', JStr ''42'')],
        source = DocxCitation, sourceFile = ''test.docx'', rawData = JNull\<rparr>"
  have t: "\<not> isEmptyVal (getProp ?a ''title'')"
    by code_simp
  have p: "getProp (mergeItems ?a ?b) ''page'' \<noteq> getProp ?a ''page''"
    by code_simp
  have pb: "(''page'', v) \<in> set ?b \<longleftrightarrow> v = JStr ''1-10''" for v
    by auto
  have ta: "getProp ?a ''title'' = JStr ''Article''"
    by code_simp
  have k: "generateDedupeKey (item ?rB) = generateDedupeKey (item ?rA)"
    by code_simp
  have m: "mergeItems (item ?rA) (item ?rB)
             = [(''title'', JStr ''Article''), (''DOI'', JStr ''10.1234/merge''),
                (''volume'', JStr ''42'')]"
    by code_simp
  from merge_nondestructive [of ?rB ?rA ?a "''title''" ?b] t ta
  have 1: "getProp (mergeItems ?a ?b) ''title'' = JStr ''Article''"
    by simp
  from merge_nondestructive [of ?rB ?rA ?a "''page''" ?b] p pb
  have 2: "getProp (mergeItems ?a ?b) ''page'' = JStr ''1-10''"
    by blast
  from merge_nondestructive [of ?rB ?rA ?a "''page''" ?b] k m
  have 3: "deduplicateItems [?rA, ?rB]
             = ([[(''title'', JStr ''Article''), (''DOI'', JStr ''10.1234/merge''),
                  (''volume'', JStr ''42'')]], 1)"
    by simp
  from 1 2 3 show ?thesis
    by blast
qed

subsection \<open>Sorting\<close>


lemma localeCompare_lt: "localeCompare x y < 0 \<longleftrightarrow> x < y"
  by (induction x y rule: localeCompare.induct) auto











subsection \<open>Shape of the citation key\<close>













subsection \<open>Trimming\<close>

lemma trimItem_keys: "map fst (trimItem it) = map fst it"
  by (simp add: trimItem_def comp_def)

lemma trimItem_lookup: "map_of (trimItem it) k = map_option trimField (map_of it k)"
  by (induction it) (auto simp: trimItem_def)

lemma trimField_cases:
  "trimField (JStr s) = JStr (trim s)"
  "trimField (JArr xs) = JArr (map trimElem xs)"
  "trimField JNull = JNull" "trimField JUndef = JUndef"
  "trimField (JBool b) = JBool b" "trimField (JNum n) = JNum n"
  "trimField (JObj ps) = JObj ps"
  by (simp_all add: trimField_def)

lemma trimElem_cases:
  "trimElem (JObj ps) = JObj (map (\<lambda>kv. (fst kv, trimValue (snd kv))) ps)"
  "trimElem (JStr s) = JStr s" "trimElem (JNum n) = JNum n"
  "trimElem (JBool b) = JBool b" "trimElem JNull = JNull" "trimElem JUndef = JUndef"
  by (simp_all add: trimElem_def trimName_def entriesOf_def)

text \<open>
  Claim C9 holds for string fields, for the names inside array-valued fields and for every
  field that is neither a string nor an array (lemmas \<open>trimItem_lookup\<close>,
  \<open>trimField_cases\<close>, \<open>trimElem_cases\<close>). It fails where an array-valued field has an
  array as an element: \<^verbatim>\<open>typeof v === 'object'\<close> holds of arrays too, so the element is
  rebuilt through \<^verbatim>\<open>Object.entries\<close> as an object keyed by its indices. The record below
  has no string to trim in its field \<^verbatim>\<open>custom\<close>, yet the field does not pass through
  unchanged.
\<close>

theorem trimItem_nested_array_changed:
  "trimItem [(''type'', JStr ''book''), (''custom'', JArr [JArr [JNum 1, JNum 2]])]
     = [(''type'', JStr ''book''),
        (''custom'', JArr [JObj [(''0'', JNum 1), (''1'', JNum 2)]])]"
  by code_simp

subsection \<open>The brace scanner\<close>






lemma indexOfChar_none: "c \<notin> set s \<Longrightarrow> indexOfChar c s i = None"
  by (induction s arbitrary: i) auto


lemma blockAfter_no_brace:
  "CHR ''{'' \<notin> set (drop startSearch tx) \<Longrightarrow> blockAfter tx startSearch = None"
  by (simp add: blockAfter_def indexOf_def indexOfChar_none)





lemma extractLoop_no_brace:
  "CHR ''{'' \<notin> set (drop k tx) \<Longrightarrow> extractLoop tx k = []"
proof (induction tx k rule: extractLoop.induct)
  case (1 tx lastIndex)
  show ?case
  proof (cases "findMarker (drop lastIndex tx) lastIndex")
    case None
    then show ?thesis
      by (subst extractLoop.simps) simp
  next
    case (Some p)
    obtain idx n where p: "p = (idx, n)"
      by (cases p)
    from findMarker_bounds [OF Some [unfolded p]] have le: "lastIndex \<le> idx + n"
      by simp
    have "set (drop (idx + n) tx) \<subseteq> set (drop lastIndex tx)"
      using le by (rule set_drop_subset_set_drop)
    with "1.prems" have nb: "CHR ''{'' \<notin> set (drop (idx + n) tx)"
      by blast
    then have b: "blockAfter tx (idx + n) = None"
      by (rule blockAfter_no_brace)
    have "extractLoop tx (idx + n) = []"
      using Some p b nb by (intro "1.IH"(1)) simp_all
    then show ?thesis
      using Some p b by (subst extractLoop.simps) simp
  qed
qed

lemma extractJsonBlocks_no_brace:
  "CHR ''{'' \<notin> set tx \<Longrightarrow> extractJsonBlocks tx = []"
  by (simp add: extractJsonBlocks_def extractLoop_no_brace)





subsection \<open>Entry keys of the rendered formats\<close>

















end
